theory Spec2Isabelle
  imports Complex_Main
begin

section \<open>JavaScript values\<close>

text \<open>
  The controller is JavaScript: the fields of a connector state are dynamically typed, the
  tests on them are truthiness tests and the comparisons are strict (\<open>===\<close>, \<open>!==\<close>).
  Numbers are IEEE doubles; the controller only tests them for truthiness and strict
  equality, so a finite number is a real, and NaN and the infinities are values of their own.
\<close>

datatype jsval =
    JUndefined
  | JNull
  | JBool bool
  | JNum real
  | JNaN
  | JPosInfinity
  | JNegInfinity
  | JStr string

text \<open>ToBoolean: \<open>undefined\<close>, \<open>null\<close>, \<open>false\<close>, \<open>0\<close>, \<open>NaN\<close> and \<open>""\<close> are falsy.\<close>

fun truthy :: "jsval \<Rightarrow> bool" where
  "truthy JUndefined = False"
| "truthy JNull = False"
| "truthy (JBool b) = b"
| "truthy (JNum r) = (r \<noteq> 0)"
| "truthy JNaN = False"
| "truthy JPosInfinity = True"
| "truthy JNegInfinity = True"
| "truthy (JStr s) = (s \<noteq> [])"

text \<open>\<open>a === b\<close> on primitive values: equal values of the same type, and NaN equals nothing.\<close>

definition strict_eq :: "jsval \<Rightarrow> jsval \<Rightarrow> bool" where
  "strict_eq a b = (a \<noteq> JNaN \<and> a = b)"

text \<open>\<open>a !== b\<close>.\<close>

definition strict_neq :: "jsval \<Rightarrow> jsval \<Rightarrow> bool" where
  "strict_neq a b = (\<not> strict_eq a b)"

text \<open>\<open>a && b\<close>: the left operand when it is falsy, the right one otherwise.\<close>

definition js_and :: "jsval \<Rightarrow> jsval \<Rightarrow> jsval" where
  "js_and a b = (if truthy a then b else a)"

datatype JsError = Error string | TypeError string

text \<open>
  How a function ends: normally, or by throwing; either way the controller is left in
  the state the function had reached.
\<close>

datatype 'a Completion = Normal 'a | Throw JsError 'a

fun andThen :: "'a Completion \<Rightarrow> ('a \<Rightarrow> 'a Completion) \<Rightarrow> 'a Completion" where
  "andThen (Normal a) f = f a"
| "andThen (Throw e a) f = Throw e a"

text \<open>The state a function left the controller in, however it ended.\<close>

fun stateOf :: "'a Completion \<Rightarrow> 'a" where
  "stateOf (Normal a) = a"
| "stateOf (Throw e a) = a"

text \<open>Whether a call ends by throwing to its caller.\<close>

fun throwsSync :: "'a Completion \<Rightarrow> bool" where
  "throwsSync (Normal a) = False"
| "throwsSync (Throw e a) = True"

text \<open>
  A call of an \<open>async\<close> function never throws to its caller: it returns a promise. When
  the body throws, the promise is rejected with the error; when the body awaits, the
  promise is pending; when the body has ended, the promise is fulfilled.
\<close>

datatype PromiseState = Pending | Fulfilled | Rejected JsError

text \<open>How the promise of an \<open>async\<close> function is settled once its body has ended.\<close>

fun settled :: "'a Completion \<Rightarrow> PromiseState" where
  "settled (Normal a) = Fulfilled"
| "settled (Throw e a) = Rejected e"

section \<open>Data model\<close>

text \<open>The connector state (the adapter snapshot) handed to \<open>onStateChanged\<close>.\<close>

record ConnectorState =
  artist :: jsval
  track :: jsval
  album :: jsval
  uniqueID :: jsval
  duration :: jsval
  currentTime :: jsval
  isPlaying :: jsval
  trackArt :: jsval
  isPodcast :: jsval

text \<open>\<open>state[field]\<close>: a property that the object does not have reads as \<open>undefined\<close>.\<close>

definition getProp :: "ConnectorState \<Rightarrow> string \<Rightarrow> jsval" where
  "getProp st f =
    (if f = ''artist'' then artist st
     else if f = ''track'' then track st
     else if f = ''album'' then album st
     else if f = ''uniqueID'' then uniqueID st
     else if f = ''duration'' then duration st
     else if f = ''currentTime'' then currentTime st
     else if f = ''isPlaying'' then isPlaying st
     else if f = ''trackArt'' then trackArt st
     else if f = ''isPodcast'' then isPodcast st
     else JUndefined)"

definition fieldsToCheckSongChange :: "string list" where
  "fieldsToCheckSongChange = [''artist'', ''track'', ''album'', ''uniqueID'']"

record SongFlags =
  isSkipped :: bool
  isReplaying :: bool
  isScrobbled :: bool
  isMarkedAsPlaying :: bool

text \<open>
  The track entity. The controller reads and writes \<open>parsed\<close> and \<open>flags\<close>; whatever else
  the entity holds (raw fields, processed fields, metadata) is \<open>internal\<close>.
\<close>

record 's Song =
  parsed :: ConnectorState
  flags :: SongFlags
  internal :: 's

datatype ControllerMode =
  Base | Disabled | Err | Ignored | Loading | Playing | Scrobbled | Skipped | Unknown

datatype ControllerEvent =
  ControllerReset | SongNowPlaying | SongScrobbled | SongUnrecognized

text \<open>
  Modelled from the spec: the module \<open>object/service-call-result\<close> is absent. The source
  names \<open>RESULT_OK\<close> and \<open>RESULT_IGNORE\<close>; the spec gives a per-service outcome as success,
  intentionally-ignored or a failure kind.
\<close>

datatype ServiceCallResult = RESULT_OK | RESULT_IGNORE | FAILURE string

datatype LogType = Log | Warn

datatype TimerCallback = ScrobbleSongCallback | ReplayDetectedCallback

record Connector =
  label :: string

type_synonym SongData = "(string \<times> jsval) list"

text \<open>The calls that leave the controller, with their arguments as passed.\<close>

datatype 's ExternalCall =
    Pipeline_process "'s Song option"
  | ScrobbleService_sendNowPlaying "'s Song"
  | ScrobbleService_scrobble "'s Song option"
  | SavedEdits_saveSongInfo "'s Song" SongData
  | SavedEdits_removeSongInfo "'s Song"
  | Options_getOption string

text \<open>
  What the controller does to the outside, in order: the three observer callbacks
  (\<open>onModeChanged\<close>, \<open>onSongUpdated\<close>, \<open>onControllerEvent\<close>), the debug log and the
  external calls. A log entry keeps the fixed part of its message.
\<close>

datatype 's Output =
    ModeChanged ControllerMode
  | SongUpdated
  | ControllerEvt ControllerEvent
  | DebugLog string LogType
  | Call "'s ExternalCall"

text \<open>
  The fields of the class \<open>Controller\<close> (the pipeline, which the controller only calls, is
  among the external calls), and \<open>trace\<close>: no field of the class, but the outputs of the
  controller so far. A function that changes nothing but \<open>trace\<close> changes no state.
\<close>

record ('t, 's) Controller =
  tabId :: int
  connector :: Connector
  isEnabled :: bool
  mode :: ControllerMode
  playbackTimer :: 't
  replayDetectionTimer :: 't
  currentSong :: "'s Song option"
  isReplayingSong :: bool
  shouldScrobblePodcasts :: bool
  trace :: "'s Output list"

text \<open>
  The modules \<open>object/timer\<close>, \<open>object/song\<close> and \<open>util/util\<close> are absent: their
  synchronous operations are parameters of the model, and every theorem holds for all of
  them. \<open>'t\<close> is the state of a Timer.
\<close>

record ('t, 's) Env =
  Timer_new :: 't
  Timer_start :: "TimerCallback \<Rightarrow> 't \<Rightarrow> 't"
  Timer_pause :: "'t \<Rightarrow> 't"
  Timer_resume :: "'t \<Rightarrow> 't"
  Timer_reset :: "'t \<Rightarrow> 't"
  Timer_update :: "jsval \<Rightarrow> 't \<Rightarrow> 't"
  Timer_isExpired :: "'t \<Rightarrow> bool"
  Song_new :: "ConnectorState \<Rightarrow> Connector \<Rightarrow> 's Song"
  Song_isValid :: "'s Song \<Rightarrow> bool"
  Song_getDuration :: "'s Song \<Rightarrow> jsval"
  Song_resetInfo :: "'s Song \<Rightarrow> 's Song"
  Song_resetData :: "'s Song \<Rightarrow> 's Song"
  Util_getSecondsToScrobble :: "jsval \<Rightarrow> jsval \<Rightarrow> jsval"

section \<open>Helpers of the module\<close>

definition isStateEmpty :: "ConnectorState \<Rightarrow> bool" where
  "isStateEmpty state =
    (\<not> truthy (js_and (artist state) (track state))
     \<and> \<not> truthy (uniqueID state) \<and> \<not> truthy (duration state))"

text \<open>\<open>results.some((r) => r === result)\<close>\<close>

definition isAnyResult :: "'a list \<Rightarrow> 'a \<Rightarrow> bool" where
  "isAnyResult results result = list_ex (\<lambda>r. r = result) results"

definition areAllResults :: "'a list \<Rightarrow> 'a \<Rightarrow> bool" where
  "areAllResults results result =
    (if length results = 0 then False
     else list_all (\<lambda>r. r = result) results)"

section \<open>The controller\<close>

subsection \<open>Observers, log and mode\<close>

definition emit :: "'s Output \<Rightarrow> ('t, 's) Controller \<Rightarrow> ('t, 's) Controller" where
  "emit x c = c\<lparr>trace := trace c @ [x]\<rparr>"

definition debugLog :: "string \<Rightarrow> LogType \<Rightarrow> ('t, 's) Controller \<Rightarrow> ('t, 's) Controller" where
  "debugLog text logType c = emit (DebugLog text logType) c"

definition onSongUpdated :: "('t, 's) Controller \<Rightarrow> ('t, 's) Controller" where
  "onSongUpdated c = emit SongUpdated c"

text \<open>
  \<open>setMode\<close> throws on a falsy mode; the modes are the constants of \<open>ControllerMode\<close>,
  none of which is falsy. The same holds for the events of \<open>dispatchEvent\<close>.
\<close>

definition setMode :: "ControllerMode \<Rightarrow> ('t, 's) Controller \<Rightarrow> ('t, 's) Controller" where
  "setMode m c = emit (ModeChanged m) (c\<lparr>mode := m\<rparr>)"

definition dispatchEvent :: "ControllerEvent \<Rightarrow> ('t, 's) Controller \<Rightarrow> ('t, 's) Controller" where
  "dispatchEvent event c = emit (ControllerEvt event) c"

text \<open>A read of \<open>this.currentSong.x\<close>: a TypeError when no song is current.\<close>

definition withSong ::
  "('t, 's) Controller \<Rightarrow> ('s Song \<Rightarrow> ('t, 's) Controller Completion)
    \<Rightarrow> ('t, 's) Controller Completion" where
  "withSong c f =
    (case currentSong c of
       None \<Rightarrow> Throw (TypeError ''this.currentSong is null'') c
     | Some s \<Rightarrow> f s)"

definition assertSongIsPlaying :: "('t, 's) Controller \<Rightarrow> ('t, 's) Controller Completion" where
  "assertSongIsPlaying c =
    (if currentSong c = None then Throw (Error ''No song is now playing'') c
     else Normal c)"

subsection \<open>Construction, reset, enabling\<close>

text \<open>
  The constructor; the option \<open>SCROBBLE_PODCASTS\<close> is read asynchronously, and
  \<open>constructor_resume\<close> is the continuation that stores it.
\<close>

definition constructor ::
  "('t, 's) Env \<Rightarrow> int \<Rightarrow> Connector \<Rightarrow> bool \<Rightarrow> ('t, 's) Controller" where
  "constructor env tab conn enabled =
    debugLog ''Created controller for connector'' Log
      (emit (Call (Options_getOption ''SCROBBLE_PODCASTS''))
        \<lparr> tabId = tab, connector = conn, isEnabled = enabled,
          mode = (if enabled then Base else Disabled),
          playbackTimer = Timer_new env, replayDetectionTimer = Timer_new env,
          currentSong = None, isReplayingSong = False, shouldScrobblePodcasts = True,
          trace = [] \<rparr>)"

definition constructor_resume :: "bool \<Rightarrow> ('t, 's) Controller \<Rightarrow> ('t, 's) Controller" where
  "constructor_resume option c = c\<lparr>shouldScrobblePodcasts := option\<rparr>"

definition resetState :: "('t, 's) Env \<Rightarrow> ('t, 's) Controller \<Rightarrow> ('t, 's) Controller" where
  "resetState env c =
    (let c1 = dispatchEvent ControllerReset c in
     c1\<lparr>playbackTimer := Timer_reset env (playbackTimer c1),
        replayDetectionTimer := Timer_reset env (replayDetectionTimer c1),
        currentSong := None\<rparr>)"

definition reset :: "('t, 's) Env \<Rightarrow> ('t, 's) Controller \<Rightarrow> ('t, 's) Controller" where
  "reset env c = setMode Base (resetState env c)"

definition setEnabled :: "('t, 's) Env \<Rightarrow> bool \<Rightarrow> ('t, 's) Controller \<Rightarrow> ('t, 's) Controller" where
  "setEnabled env flag c =
    (let c1 = c\<lparr>isEnabled := flag\<rparr> in
     if flag then setMode Base c1
     else setMode Disabled (resetState env c1))"

definition finish :: "('t, 's) Env \<Rightarrow> ('t, 's) Controller \<Rightarrow> ('t, 's) Controller" where
  "finish env c = resetState env (debugLog ''Remove controller for connector'' Log c)"

definition skipCurrentSong ::
  "('t, 's) Env \<Rightarrow> ('t, 's) Controller \<Rightarrow> ('t, 's) Controller Completion" where
  "skipCurrentSong env c =
    andThen (assertSongIsPlaying c) (\<lambda>c0.
      let c1 = setMode Skipped c0 in
      withSong c1 (\<lambda>s.
        let c2 = c1\<lparr>currentSong := Some (s\<lparr>flags := (flags s)\<lparr>isSkipped := True\<rparr>\<rparr>)\<rparr>;
            c3 = c2\<lparr>playbackTimer := Timer_reset env (playbackTimer c2),
                    replayDetectionTimer := Timer_reset env (replayDetectionTimer c2)\<rparr>
        in Normal (onSongUpdated c3)))"

subsection \<open>Song change detection\<close>

text \<open>The loop of \<open>isSongChanged\<close> over the fields to check, returning at the first difference.\<close>

fun anyFieldChanged :: "string list \<Rightarrow> ConnectorState \<Rightarrow> ConnectorState \<Rightarrow> bool" where
  "anyFieldChanged [] newState p = False"
| "anyFieldChanged (field # rest) newState p =
    (if strict_neq (getProp newState field) (getProp p field) then True
     else anyFieldChanged rest newState p)"

definition isSongChanged :: "ConnectorState \<Rightarrow> ('t, 's) Controller \<Rightarrow> bool" where
  "isSongChanged newState c =
    (case currentSong c of
       None \<Rightarrow> True
     | Some s \<Rightarrow> anyFieldChanged fieldsToCheckSongChange newState (parsed s))"

subsection \<open>Timers\<close>

text \<open>
  \<open>updateTimers\<close> is asynchronous. \<open>updateTimers_start\<close> is what runs until it returns or
  awaits the option \<open>SCROBBLE_PERCENT\<close>; \<open>updateTimers_resume\<close> is the continuation, given
  the value of the option; \<open>updateTimers\<close> is the whole call when nothing runs in between.
\<close>

definition updateTimers_start ::
  "('t, 's) Env \<Rightarrow> jsval \<Rightarrow> ('t, 's) Controller \<Rightarrow> ('t, 's) Controller" where
  "updateTimers_start env dur c =
    (if Timer_isExpired env (playbackTimer c)
     then debugLog ''Attempt to update expired timers'' Warn c
     else emit (Call (Options_getOption ''SCROBBLE_PERCENT'')) c)"

definition updateTimers_resume ::
  "('t, 's) Env \<Rightarrow> jsval \<Rightarrow> jsval \<Rightarrow> ('t, 's) Controller \<Rightarrow> ('t, 's) Controller" where
  "updateTimers_resume env percent dur c =
    (let secondsToScrobble = Util_getSecondsToScrobble env dur percent in
     if strict_neq secondsToScrobble (JNum (- 1)) then
       debugLog ''The song will be repeated in seconds'' Log
        (debugLog ''The song will be scrobbled in seconds'' Log
          (c\<lparr>playbackTimer := Timer_update env secondsToScrobble (playbackTimer c),
             replayDetectionTimer := Timer_update env dur (replayDetectionTimer c)\<rparr>))
     else debugLog ''The song is too short to scrobble'' Log c)"

definition updateTimers ::
  "('t, 's) Env \<Rightarrow> jsval \<Rightarrow> jsval \<Rightarrow> ('t, 's) Controller \<Rightarrow> ('t, 's) Controller" where
  "updateTimers env percent dur c =
    (if Timer_isExpired env (playbackTimer c)
     then updateTimers_start env dur c
     else updateTimers_resume env percent dur (updateTimers_start env dur c))"

text \<open>\<open>newState.duration && this.currentSong.parsed.duration !== newState.duration\<close>\<close>

definition isNeedToUpdateDuration :: "ConnectorState \<Rightarrow> 's Song \<Rightarrow> jsval" where
  "isNeedToUpdateDuration newState s =
    js_and (duration newState) (JBool (strict_neq (duration (parsed s)) (duration newState)))"

text \<open>\<open>updateSongDuration\<close> calls \<open>updateTimers\<close> without awaiting it.\<close>

definition updateSongDuration ::
  "('t, 's) Env \<Rightarrow> jsval \<Rightarrow> ('t, 's) Controller \<Rightarrow> ('t, 's) Controller Completion" where
  "updateSongDuration env dur c =
    (let c1 = debugLog ''Update duration'' Log c in
     withSong c1 (\<lambda>s.
       let s1 = s\<lparr>parsed := (parsed s)\<lparr>duration := dur\<rparr>\<rparr>;
           c2 = c1\<lparr>currentSong := Some s1\<rparr>
       in if Song_isValid env s1 then Normal (updateTimers_start env dur c2)
          else Normal c2))"

subsection \<open>Now playing\<close>

text \<open>
  \<open>setSongNowPlaying\<close> is asynchronous: \<open>setSongNowPlaying_start\<close> runs up to the call of
  \<open>ScrobbleService.sendNowPlaying\<close>, \<open>setSongNowPlaying_resume\<close> is the continuation, given
  the results the call resolved to.
\<close>

definition setSongNowPlaying_start ::
  "('t, 's) Controller \<Rightarrow> ('t, 's) Controller Completion" where
  "setSongNowPlaying_start c =
    withSong c (\<lambda>s.
      let s1 = s\<lparr>flags := (flags s)\<lparr>isMarkedAsPlaying := True\<rparr>\<rparr>;
          c1 = c\<lparr>currentSong := Some s1\<rparr>
      in Normal (emit (Call (ScrobbleService_sendNowPlaying s1)) c1))"

definition setSongNowPlaying_resume ::
  "ServiceCallResult list \<Rightarrow> ('t, 's) Controller \<Rightarrow> ('t, 's) Controller" where
  "setSongNowPlaying_resume results c =
    dispatchEvent SongNowPlaying
      (if isAnyResult results RESULT_OK
       then setMode Playing (debugLog ''Song set as now playing'' Log c)
       else setMode Err (debugLog ''Song isn't set as now playing'' Log c))"

definition setSongNowPlaying ::
  "ServiceCallResult list \<Rightarrow> ('t, 's) Controller \<Rightarrow> ('t, 's) Controller Completion" where
  "setSongNowPlaying results c =
    andThen (setSongNowPlaying_start c) (\<lambda>c1. Normal (setSongNowPlaying_resume results c1))"

definition setSongNotRecognized :: "('t, 's) Controller \<Rightarrow> ('t, 's) Controller" where
  "setSongNotRecognized c = dispatchEvent SongUnrecognized (setMode Unknown c)"

subsection \<open>Scrobbling\<close>

text \<open>
  \<open>scrobbleSong\<close>, the callback of the playback timer: the call of
  \<open>ScrobbleService.scrobble\<close>, and the continuation given its results.
\<close>

definition scrobbleSong_start :: "('t, 's) Controller \<Rightarrow> ('t, 's) Controller" where
  "scrobbleSong_start c = emit (Call (ScrobbleService_scrobble (currentSong c))) c"

definition scrobbleSong_resume ::
  "ServiceCallResult list \<Rightarrow> ('t, 's) Controller \<Rightarrow> ('t, 's) Controller Completion" where
  "scrobbleSong_resume results c =
    (if isAnyResult results RESULT_OK then
       (let c1 = debugLog ''Scrobbled successfully'' Log c in
        withSong c1 (\<lambda>s.
          let c2 = c1\<lparr>currentSong := Some (s\<lparr>flags := (flags s)\<lparr>isScrobbled := True\<rparr>\<rparr>)\<rparr>
          in Normal (dispatchEvent SongScrobbled (onSongUpdated (setMode Scrobbled c2)))))
     else if areAllResults results RESULT_IGNORE then
       Normal (setMode Ignored (debugLog ''Song is ignored by service'' Log c))
     else
       Normal (setMode Err (debugLog ''Scrobbling failed'' Warn c)))"

definition scrobbleSong ::
  "ServiceCallResult list \<Rightarrow> ('t, 's) Controller \<Rightarrow> ('t, 's) Controller Completion" where
  "scrobbleSong results c = scrobbleSong_resume results (scrobbleSong_start c)"

text \<open>The callback of the replay detection timer.\<close>

definition replayDetected :: "('t, 's) Controller \<Rightarrow> ('t, 's) Controller" where
  "replayDetected c = (debugLog ''Replaying song...'' Log c)\<lparr>isReplayingSong := True\<rparr>"

subsection \<open>Processing a song\<close>

text \<open>
  \<open>processSong\<close> is asynchronous. \<open>processSong_start\<close> runs up to the call of
  \<open>pipeline.process\<close>. \<open>processSong_resume\<close> is the continuation: \<open>processed\<close> is the value
  the call resolved to and \<open>percent\<close> the option that the awaited \<open>updateTimers\<close> reads;
  its state is the controller as the pipeline left it. \<open>setSongNowPlaying\<close> is called
  without being awaited, so only its start belongs to \<open>processSong\<close>.
\<close>

definition processSong_start :: "('t, 's) Controller \<Rightarrow> ('t, 's) Controller" where
  "processSong_start c =
    (let c1 = setMode Loading c in emit (Call (Pipeline_process (currentSong c1))) c1)"

definition processSong_resume ::
  "('t, 's) Env \<Rightarrow> bool \<Rightarrow> jsval \<Rightarrow> ('t, 's) Controller \<Rightarrow> ('t, 's) Controller Completion" where
  "processSong_resume env processed percent c =
    (if \<not> processed then Normal c
     else
       withSong c (\<lambda>s.
         let c1 = debugLog ''Song finished processing'' Log c in
         andThen
           (if Song_isValid env s then
              (let s1 = s\<lparr>flags := (flags s)\<lparr>isMarkedAsPlaying := False\<rparr>\<rparr>;
                   c2 = c1\<lparr>currentSong := Some s1\<rparr>;
                   c3 = updateTimers env percent (Song_getDuration env s1) c2
               in if truthy (isPlaying (parsed s1)) then
                    (if \<not> Timer_isExpired env (playbackTimer c3)
                     then setSongNowPlaying_start c3
                     else Normal (dispatchEvent SongNowPlaying c3))
                  else Normal (setMode Base c3))
            else Normal (setSongNotRecognized c1))
           (\<lambda>c4. Normal (onSongUpdated c4))))"

definition unprocessSong ::
  "('t, 's) Env \<Rightarrow> ('t, 's) Controller \<Rightarrow> ('t, 's) Controller Completion" where
  "unprocessSong env c =
    withSong c (\<lambda>s.
      let c1 = debugLog ''Clearing playback timer destination time'' Log
                 (debugLog ''Song unprocessed'' Log c);
          c2 = c1\<lparr>currentSong := Some (Song_resetData env s)\<rparr>
      in Normal (c2\<lparr>playbackTimer := Timer_update env JNull (playbackTimer c2),
                    replayDetectionTimer := Timer_update env JNull (replayDetectionTimer c2)\<rparr>))"

subsection \<open>User operations\<close>

text \<open>
  \<open>resetSongData\<close> and \<open>setUserSongData\<close> are asynchronous: the start runs up to the call
  of the edit store, the continuation runs when that call has resolved. \<open>processSong\<close> is
  called without being awaited, so only its start belongs to them.
\<close>

definition resetSongData_start ::
  "('t, 's) Env \<Rightarrow> ('t, 's) Controller \<Rightarrow> ('t, 's) Controller Completion" where
  "resetSongData_start env c =
    andThen (assertSongIsPlaying c) (\<lambda>c0.
      withSong c0 (\<lambda>s.
        let s1 = Song_resetInfo env s;
            c1 = c0\<lparr>currentSong := Some s1\<rparr>
        in Normal (emit (Call (SavedEdits_removeSongInfo s1)) c1)))"

definition resetSongData_resume ::
  "('t, 's) Env \<Rightarrow> ('t, 's) Controller \<Rightarrow> ('t, 's) Controller Completion" where
  "resetSongData_resume env c =
    andThen (unprocessSong env c) (\<lambda>c1. Normal (processSong_start c1))"

definition resetSongData ::
  "('t, 's) Env \<Rightarrow> ('t, 's) Controller \<Rightarrow> ('t, 's) Controller Completion" where
  "resetSongData env c = andThen (resetSongData_start env c) (resetSongData_resume env)"

definition setUserSongData_start ::
  "SongData \<Rightarrow> ('t, 's) Controller \<Rightarrow> ('t, 's) Controller Completion" where
  "setUserSongData_start data c =
    andThen (assertSongIsPlaying c) (\<lambda>c0.
      withSong c0 (\<lambda>s.
        if isScrobbled (flags s)
        then Throw (Error ''Unable to set user data for scrobbled song'') c0
        else Normal (emit (Call (SavedEdits_saveSongInfo s data)) c0)))"

definition setUserSongData_resume ::
  "('t, 's) Env \<Rightarrow> ('t, 's) Controller \<Rightarrow> ('t, 's) Controller Completion" where
  "setUserSongData_resume env c =
    andThen (unprocessSong env c) (\<lambda>c1. Normal (processSong_start c1))"

definition setUserSongData ::
  "('t, 's) Env \<Rightarrow> SongData \<Rightarrow> ('t, 's) Controller \<Rightarrow> ('t, 's) Controller Completion" where
  "setUserSongData env data c =
    andThen (setUserSongData_start data c) (setUserSongData_resume env)"

text \<open>
  \<open>setUserSongData\<close> is declared \<open>async\<close>. \<open>setUserSongData_start\<close> and \<open>setUserSongData\<close>
  give how its body ends; \<open>setUserSongData_call\<close> is what the caller has when the call
  returns, which is when the body throws or reaches its \<open>await\<close>: the controller and the
  promise. An error thrown in the body is not thrown to the caller but rejects the promise.
\<close>

definition setUserSongData_call ::
  "SongData \<Rightarrow> ('t, 's) Controller \<Rightarrow> (('t, 's) Controller \<times> PromiseState) Completion" where
  "setUserSongData_call data c =
    (case setUserSongData_start data c of
       Normal c1 \<Rightarrow> Normal (c1, Pending)
     | Throw e c1 \<Rightarrow> Normal (c1, Rejected e))"

subsection \<open>Reacting to a connector state\<close>

text \<open>\<open>onPlayingStateChanged\<close> calls \<open>setSongNowPlaying\<close> without awaiting it.\<close>

definition onPlayingStateChanged ::
  "('t, 's) Env \<Rightarrow> jsval \<Rightarrow> ('t, 's) Controller \<Rightarrow> ('t, 's) Controller Completion" where
  "onPlayingStateChanged env val c =
    (let c1 = debugLog ''isPlaying state changed'' Log c in
     if truthy val then
       (let c2 = c1\<lparr>playbackTimer := Timer_resume env (playbackTimer c1),
                    replayDetectionTimer := Timer_resume env (replayDetectionTimer c1)\<rparr>
        in withSong c2 (\<lambda>s.
             if \<not> isMarkedAsPlaying (flags s) \<and> Song_isValid env s
             then setSongNowPlaying_start c2
             else Normal (setMode (mode c2) c2)))
     else
       Normal (c1\<lparr>playbackTimer := Timer_pause env (playbackTimer c1),
                  replayDetectionTimer := Timer_pause env (replayDetectionTimer c1)\<rparr>))"

definition processCurrentState ::
  "('t, 's) Env \<Rightarrow> ConnectorState \<Rightarrow> ('t, 's) Controller \<Rightarrow> ('t, 's) Controller Completion" where
  "processCurrentState env newState c =
    withSong c (\<lambda>s.
      if isSkipped (flags s) then Normal c
      else
        (let isPlayingStateChanged = strict_neq (isPlaying (parsed s)) (isPlaying newState);
             s1 = s\<lparr>parsed := (parsed s)\<lparr>currentTime := currentTime newState,
                                         isPlaying := isPlaying newState,
                                         trackArt := trackArt newState\<rparr>\<rparr>;
             c1 = c\<lparr>currentSong := Some s1\<rparr>
         in andThen
              (if truthy (isNeedToUpdateDuration newState s1)
               then updateSongDuration env (duration newState) c1
               else Normal c1)
              (\<lambda>c2. if isPlayingStateChanged
                    then onPlayingStateChanged env (isPlaying newState) c2
                    else Normal c2)))"

text \<open>
  \<open>processNewState\<close> calls \<open>processSong\<close> without awaiting it: the start of \<open>processSong\<close>
  runs inside, then the replay flag is cleared.
\<close>

definition processNewState ::
  "('t, 's) Env \<Rightarrow> ConnectorState \<Rightarrow> ('t, 's) Controller \<Rightarrow> ('t, 's) Controller Completion" where
  "processNewState env newState c =
    (let c1 = resetState env c;
         s = Song_new env newState (connector c1);
         s1 = s\<lparr>flags := (flags s)\<lparr>isReplaying := isReplayingSong c1\<rparr>\<rparr>;
         c2 = debugLog ''New song detected'' Log (c1\<lparr>currentSong := Some s1\<rparr>)
     in if \<not> shouldScrobblePodcasts c2 \<and> truthy (isPodcast newState) then
          skipCurrentSong env c2
        else
          (let c3 = c2\<lparr>playbackTimer :=
                          Timer_start env ScrobbleSongCallback (playbackTimer c2),
                        replayDetectionTimer :=
                          Timer_start env ReplayDetectedCallback (replayDetectionTimer c2)\<rparr>;
               c4 = (if \<not> truthy (isPlaying newState)
                     then c3\<lparr>playbackTimer := Timer_pause env (playbackTimer c3),
                             replayDetectionTimer :=
                               Timer_pause env (replayDetectionTimer c3)\<rparr>
                     else c3);
               c5 = processSong_start c4
           in Normal (c5\<lparr>isReplayingSong := False\<rparr>)))"

definition onStateChanged ::
  "('t, 's) Env \<Rightarrow> ConnectorState \<Rightarrow> ('t, 's) Controller \<Rightarrow> ('t, 's) Controller Completion" where
  "onStateChanged env newState c =
    (if \<not> isEnabled c then Normal c
     else if isStateEmpty newState then
       (let c1 = (if currentSong c \<noteq> None
                  then reset env (debugLog ''Received empty state - resetting'' Log c)
                  else c);
            c2 = (if truthy (isPlaying newState)
                  then debugLog
                    ''State from connector doesn't contain enough information about the playing track''
                    Warn c1
                  else c1)
        in Normal c2)
     else if isSongChanged newState c \<or> isReplayingSong c then
       (if truthy (isPlaying newState) then processNewState env newState c
        else Normal (reset env c))
     else processCurrentState env newState c)"

section \<open>A reference environment\<close>

text \<open>
  Modelled from the spec: the modules \<open>object/timer\<close>, \<open>object/song\<close> and \<open>util/util\<close>
  are absent. The spec gives a Timer a duration target (seconds, or unset), a
  running/paused state and one completion callback, reset clearing the target and
  cancelling the firing; it gives an entity raw values that come from the snapshot and
  parsed values that are its own copy. This environment is one such host; the controller
  is evaluated in it on concrete inputs.
\<close>

record TimerState =
  targetSeconds :: jsval
  callback :: "TimerCallback option"
  started :: bool
  paused :: bool
  hasTriggered :: bool

definition refTimer_new :: TimerState where
  "refTimer_new =
    \<lparr>targetSeconds = JNull, callback = None, started = False, paused = False,
     hasTriggered = False\<rparr>"

definition refSong_new :: "ConnectorState \<Rightarrow> Connector \<Rightarrow> ConnectorState Song" where
  "refSong_new st conn =
    \<lparr>parsed = st,
     flags = \<lparr>isSkipped = False, isReplaying = False, isScrobbled = False,
              isMarkedAsPlaying = False\<rparr>,
     internal = st\<rparr>"

definition refSecondsToScrobble :: "jsval \<Rightarrow> jsval \<Rightarrow> jsval" where
  "refSecondsToScrobble dur percent =
    (case (dur, percent) of
       (JNum d, JNum p) \<Rightarrow> (if d < 30 then JNum (- 1) else JNum (d * p / 100))
     | _ \<Rightarrow> JNum (- 1))"

definition refEnv :: "(TimerState, ConnectorState) Env" where
  "refEnv =
    \<lparr>Timer_new = refTimer_new,
     Timer_start = (\<lambda>cb t. refTimer_new\<lparr>callback := Some cb, started := True\<rparr>),
     Timer_pause = (\<lambda>t. if started t then t\<lparr>paused := True\<rparr> else t),
     Timer_resume = (\<lambda>t. t\<lparr>paused := False\<rparr>),
     Timer_reset = (\<lambda>t. refTimer_new),
     Timer_update = (\<lambda>v t. t\<lparr>targetSeconds := v\<rparr>),
     Timer_isExpired = hasTriggered,
     Song_new = refSong_new,
     Song_isValid = (\<lambda>s. truthy (artist (parsed s)) \<and> truthy (track (parsed s))),
     Song_getDuration = (\<lambda>s. duration (parsed s)),
     Song_resetInfo = (\<lambda>s. s\<lparr>parsed := internal s\<rparr>),
     Song_resetData = (\<lambda>s. s\<lparr>parsed := internal s\<rparr>),
     Util_getSecondsToScrobble = refSecondsToScrobble\<rparr>"

text \<open>A snapshot of a playing track, and one with no data at all.\<close>

definition stateAT :: ConnectorState where
  "stateAT =
    \<lparr>artist = JStr ''A'', track = JStr ''T'', album = JNull, uniqueID = JUndefined,
     duration = JNum 300, currentTime = JNum 0, isPlaying = JBool True,
     trackArt = JNull, isPodcast = JBool False\<rparr>"

definition stateNone :: ConnectorState where
  "stateNone =
    \<lparr>artist = JNull, track = JNull, album = JNull, uniqueID = JUndefined,
     duration = JNull, currentTime = JNull, isPlaying = JBool True,
     trackArt = JNull, isPodcast = JUndefined\<rparr>"

text \<open>An enabled controller with no track, and the same one tracking \<open>stateAT\<close>.\<close>

definition ctrlIdle :: "(TimerState, ConnectorState) Controller" where
  "ctrlIdle =
    \<lparr>tabId = 1, connector = \<lparr>label = ''demo''\<rparr>, isEnabled = True, mode = Base,
     playbackTimer = refTimer_new, replayDetectionTimer = refTimer_new,
     currentSong = None, isReplayingSong = False, shouldScrobblePodcasts = True,
     trace = []\<rparr>"

definition songAT :: "ConnectorState Song" where
  "songAT = refSong_new stateAT \<lparr>label = ''demo''\<rparr>"

definition ctrlAT :: "(TimerState, ConnectorState) Controller" where
  "ctrlAT =
    ctrlIdle\<lparr>mode := Playing, currentSong := Some songAT,
      playbackTimer := refTimer_new\<lparr>callback := Some ScrobbleSongCallback, started := True,
                                    targetSeconds := JNum 150\<rparr>,
      replayDetectionTimer := refTimer_new\<lparr>callback := Some ReplayDetectedCallback,
                                           started := True, targetSeconds := JNum 300\<rparr>\<rparr>"

text \<open>The playback timer of \<open>ctrlAT\<close> has fired.\<close>

definition ctrlExpired :: "(TimerState, ConnectorState) Controller" where
  "ctrlExpired = ctrlAT\<lparr>playbackTimer := (playbackTimer ctrlAT)\<lparr>hasTriggered := True\<rparr>\<rparr>"

text \<open>The track of \<open>ctrlAT\<close> has been scrobbled.\<close>

definition songScrobbled :: "ConnectorState Song" where
  "songScrobbled = songAT\<lparr>flags := (flags songAT)\<lparr>isScrobbled := True\<rparr>\<rparr>"

definition ctrlScrobbled :: "(TimerState, ConnectorState) Controller" where
  "ctrlScrobbled = ctrlAT\<lparr>mode := Scrobbled, currentSong := Some songScrobbled\<rparr>"

text \<open>
  A snapshot with no artist, which the reference environment does not take for a valid
  song, and a controller that has just taken it in.
\<close>

definition stateNoArtist :: ConnectorState where
  "stateNoArtist = stateAT\<lparr>artist := JNull\<rparr>"

definition songNoArtist :: "ConnectorState Song" where
  "songNoArtist = refSong_new stateNoArtist \<lparr>label = ''demo''\<rparr>"

definition ctrlNoArtist :: "(TimerState, ConnectorState) Controller" where
  "ctrlNoArtist = ctrlIdle\<lparr>currentSong := Some songNoArtist\<rparr>"

text \<open>
  A podcast snapshot, and a controller with podcast scrobbling off whose replay detection
  timer has fired.
\<close>

definition statePodcast :: ConnectorState where
  "statePodcast = stateAT\<lparr>isPodcast := JBool True\<rparr>"

definition ctrlReplaying :: "(TimerState, ConnectorState) Controller" where
  "ctrlReplaying = ctrlAT\<lparr>isReplayingSong := True, shouldScrobblePodcasts := False\<rparr>"

section \<open>Basic facts\<close>

lemmas ctrl_defs = emit_def debugLog_def onSongUpdated_def setMode_def dispatchEvent_def
  withSong_def assertSongIsPlaying_def

lemmas ref_defs = refEnv_def refTimer_new_def refSong_new_def refSecondsToScrobble_def
  stateAT_def stateNone_def ctrlIdle_def songAT_def ctrlAT_def ctrlExpired_def
  songScrobbled_def ctrlScrobbled_def stateNoArtist_def songNoArtist_def ctrlNoArtist_def
  statePodcast_def ctrlReplaying_def

lemma isAnyResult_iff: "isAnyResult rs t \<longleftrightarrow> t \<in> set rs"
  by (auto simp: isAnyResult_def list_ex_iff)

lemma areAllResults_iff: "areAllResults rs t \<longleftrightarrow> rs \<noteq> [] \<and> (\<forall>r\<in>set rs. r = t)"
  by (auto simp: areAllResults_def list_all_iff)

lemma isStateEmpty_iff:
  "isStateEmpty st \<longleftrightarrow>
    \<not> (truthy (artist st) \<and> truthy (track st)) \<and> \<not> truthy (uniqueID st)
    \<and> \<not> truthy (duration st)"
  by (auto simp: isStateEmpty_def js_and_def)

lemma anyFieldChanged_iff:
  "anyFieldChanged fs st p \<longleftrightarrow> (\<exists>f\<in>set fs. strict_neq (getProp st f) (getProp p f))"
  by (induction fs) auto

text \<open>Away from NaN, \<open>!==\<close> is inequality of values.\<close>

lemma strict_neq_iff: "b \<noteq> JNaN \<Longrightarrow> strict_neq a b \<longleftrightarrow> a \<noteq> b"
  by (auto simp: strict_neq_def strict_eq_def)

section \<open>Aggregation of the results of a submission\<close>

text \<open>
  C5: for every list of outcomes and every target, \<open>isAnyResult\<close> is true iff some
  element equals the target, and \<open>areAllResults\<close> is true iff the list is not empty and
  every element equals the target. In particular \<open>[]\<close> is not all-ignored, \<open>[OK]\<close> is
  any-OK, \<open>[IGNORE, IGNORE]\<close> is all-ignored and not any-OK, and \<open>[OK, FAILURE]\<close> is any-OK.
\<close>

theorem result_aggregation:
  "(isAnyResult rs t \<longleftrightarrow> t \<in> set rs)
   \<and> (areAllResults rs t \<longleftrightarrow> rs \<noteq> [] \<and> (\<forall>r\<in>set rs. r = t))
   \<and> \<not> areAllResults [] RESULT_IGNORE
   \<and> isAnyResult [RESULT_OK] RESULT_OK
   \<and> areAllResults [RESULT_IGNORE, RESULT_IGNORE] RESULT_IGNORE
   \<and> \<not> isAnyResult [RESULT_IGNORE, RESULT_IGNORE] RESULT_OK
   \<and> isAnyResult [RESULT_OK, FAILURE ''error-other''] RESULT_OK"
  by (simp add: isAnyResult_iff areAllResults_iff)

theorem result_aggregation_witness:
  "isAnyResult [RESULT_OK, RESULT_IGNORE] RESULT_IGNORE
   \<and> \<not> areAllResults [RESULT_OK, RESULT_IGNORE] RESULT_IGNORE
   \<and> areAllResults [FAILURE ''x''] (FAILURE ''x'')"
  using result_aggregation [of "[RESULT_OK, RESULT_IGNORE]" RESULT_IGNORE]
    result_aggregation [of "[FAILURE ''x'']" "FAILURE ''x''"]
  by simp

section \<open>Scrobbling and now playing\<close>

text \<open>
  C1: with a current entity, for every list of outcomes that the scrobble submission
  resolves to, \<open>scrobbleSong\<close> sets the entity's \<open>isScrobbled\<close> flag, sets mode
  \<open>Scrobbled\<close>, notifies track-updated and emits \<open>SongScrobbled\<close> iff at least one outcome
  is OK; otherwise, if the list is not empty and every outcome is the ignored one, it sets
  mode \<open>Ignored\<close>; otherwise it sets mode \<open>Err\<close>. In the last two cases the entity, its
  flags included, is unchanged, and there is neither a track-updated notification nor an
  event.
\<close>

theorem scrobbleSong_outcomes:
  assumes "currentSong c = Some s"
  shows "scrobbleSong results c =
    Normal
     (if RESULT_OK \<in> set results then
        c\<lparr>currentSong := Some (s\<lparr>flags := (flags s)\<lparr>isScrobbled := True\<rparr>\<rparr>),
          mode := Scrobbled,
          trace := trace c @
            [Call (ScrobbleService_scrobble (Some s)),
             DebugLog ''Scrobbled successfully'' Log,
             ModeChanged Scrobbled, SongUpdated, ControllerEvt SongScrobbled]\<rparr>
      else if results \<noteq> [] \<and> (\<forall>r\<in>set results. r = RESULT_IGNORE) then
        c\<lparr>mode := Ignored,
          trace := trace c @
            [Call (ScrobbleService_scrobble (Some s)),
             DebugLog ''Song is ignored by service'' Log, ModeChanged Ignored]\<rparr>
      else
        c\<lparr>mode := Err,
          trace := trace c @
            [Call (ScrobbleService_scrobble (Some s)),
             DebugLog ''Scrobbling failed'' Warn, ModeChanged Err]\<rparr>)"
  using assms
  by (simp add: scrobbleSong_def scrobbleSong_start_def scrobbleSong_resume_def ctrl_defs
      isAnyResult_iff areAllResults_iff Let_def)

theorem scrobbleSong_outcomes_witness:
  "currentSong ctrlAT = Some songAT
   \<and> scrobbleSong [RESULT_IGNORE, RESULT_OK] ctrlAT =
       Normal (ctrlAT\<lparr>currentSong := Some songScrobbled, mode := Scrobbled,
                 trace := [Call (ScrobbleService_scrobble (Some songAT)),
                           DebugLog ''Scrobbled successfully'' Log,
                           ModeChanged Scrobbled, SongUpdated, ControllerEvt SongScrobbled]\<rparr>)
   \<and> scrobbleSong [RESULT_IGNORE, RESULT_IGNORE] ctrlAT =
       Normal (ctrlAT\<lparr>mode := Ignored,
                 trace := [Call (ScrobbleService_scrobble (Some songAT)),
                           DebugLog ''Song is ignored by service'' Log, ModeChanged Ignored]\<rparr>)
   \<and> scrobbleSong [] ctrlAT =
       Normal (ctrlAT\<lparr>mode := Err,
                 trace := [Call (ScrobbleService_scrobble (Some songAT)),
                           DebugLog ''Scrobbling failed'' Warn, ModeChanged Err]\<rparr>)
   \<and> scrobbleSong [RESULT_IGNORE, FAILURE ''error-other''] ctrlAT =
       Normal (ctrlAT\<lparr>mode := Err,
                 trace := [Call (ScrobbleService_scrobble (Some songAT)),
                           DebugLog ''Scrobbling failed'' Warn, ModeChanged Err]\<rparr>)"
proof -
  have h: "currentSong ctrlAT = Some songAT" by (simp add: ctrlAT_def)
  have t: "trace ctrlAT = []" by (simp add: ctrlAT_def ctrlIdle_def)
  show ?thesis
    using h t scrobbleSong_outcomes [OF h, of "[RESULT_IGNORE, RESULT_OK]"]
      scrobbleSong_outcomes [OF h, of "[RESULT_IGNORE, RESULT_IGNORE]"]
      scrobbleSong_outcomes [OF h, of "[]"]
      scrobbleSong_outcomes [OF h, of "[RESULT_IGNORE, FAILURE ''error-other'']"]
    by (simp add: songScrobbled_def)
qed

text \<open>
  C2: with a current entity, \<open>setSongNowPlaying\<close> sets the entity's \<open>isMarkedAsPlaying\<close>
  flag before it calls the submission (the entity passed to \<open>sendNowPlaying\<close> has the flag
  set, and the start of the function ends with that call); when the call has resolved,
  from whatever state \<open>c'\<close> the controller is in, it sets mode \<open>Playing\<close> if at least one
  outcome is OK and mode \<open>Err\<close> otherwise, and in both cases dispatches \<open>SongNowPlaying\<close>
  last.
\<close>

theorem setSongNowPlaying_outcomes:
  assumes "currentSong c = Some s"
  shows "setSongNowPlaying_start c =
      Normal (c\<lparr>currentSong := Some (s\<lparr>flags := (flags s)\<lparr>isMarkedAsPlaying := True\<rparr>\<rparr>),
                 trace := trace c @
                   [Call (ScrobbleService_sendNowPlaying
                            (s\<lparr>flags := (flags s)\<lparr>isMarkedAsPlaying := True\<rparr>\<rparr>))]\<rparr>)
    \<and> setSongNowPlaying_resume results c' =
      c'\<lparr>mode := (if RESULT_OK \<in> set results then Playing else Err),
         trace := trace c' @
           [DebugLog (if RESULT_OK \<in> set results then ''Song set as now playing''
                      else ''Song isn't set as now playing'') Log,
            ModeChanged (if RESULT_OK \<in> set results then Playing else Err),
            ControllerEvt SongNowPlaying]\<rparr>
    \<and> setSongNowPlaying results c =
      Normal (c\<lparr>currentSong := Some (s\<lparr>flags := (flags s)\<lparr>isMarkedAsPlaying := True\<rparr>\<rparr>),
                 mode := (if RESULT_OK \<in> set results then Playing else Err),
                 trace := trace c @
                   [Call (ScrobbleService_sendNowPlaying
                            (s\<lparr>flags := (flags s)\<lparr>isMarkedAsPlaying := True\<rparr>\<rparr>)),
                    DebugLog (if RESULT_OK \<in> set results then ''Song set as now playing''
                              else ''Song isn't set as now playing'') Log,
                    ModeChanged (if RESULT_OK \<in> set results then Playing else Err),
                    ControllerEvt SongNowPlaying]\<rparr>)"
  using assms
  by (simp add: setSongNowPlaying_def setSongNowPlaying_start_def setSongNowPlaying_resume_def
      ctrl_defs isAnyResult_iff Let_def)

theorem setSongNowPlaying_outcomes_witness:
  "currentSong ctrlAT = Some songAT
   \<and> setSongNowPlaying [FAILURE ''error-auth'', RESULT_OK] ctrlAT =
       Normal (ctrlAT\<lparr>currentSong :=
                   Some (songAT\<lparr>flags := (flags songAT)\<lparr>isMarkedAsPlaying := True\<rparr>\<rparr>),
                 mode := Playing,
                 trace := [Call (ScrobbleService_sendNowPlaying
                             (songAT\<lparr>flags := (flags songAT)\<lparr>isMarkedAsPlaying := True\<rparr>\<rparr>)),
                           DebugLog ''Song set as now playing'' Log,
                           ModeChanged Playing, ControllerEvt SongNowPlaying]\<rparr>)
   \<and> setSongNowPlaying [RESULT_IGNORE] ctrlAT =
       Normal (ctrlAT\<lparr>currentSong :=
                   Some (songAT\<lparr>flags := (flags songAT)\<lparr>isMarkedAsPlaying := True\<rparr>\<rparr>),
                 mode := Err,
                 trace := [Call (ScrobbleService_sendNowPlaying
                             (songAT\<lparr>flags := (flags songAT)\<lparr>isMarkedAsPlaying := True\<rparr>\<rparr>)),
                           DebugLog ''Song isn't set as now playing'' Log,
                           ModeChanged Err, ControllerEvt SongNowPlaying]\<rparr>)"
proof -
  have h: "currentSong ctrlAT = Some songAT" by (simp add: ctrlAT_def)
  have t: "trace ctrlAT = []" by (simp add: ctrlAT_def ctrlIdle_def)
  show ?thesis
    using h t
      setSongNowPlaying_outcomes [OF h, where results = "[FAILURE ''error-auth'', RESULT_OK]"
        and c' = ctrlAT]
      setSongNowPlaying_outcomes [OF h, where results = "[RESULT_IGNORE]" and c' = ctrlAT]
    by simp
qed

section \<open>Classification of a snapshot\<close>

text \<open>A disabled controller holds no track: the constructor and \<open>setEnabled\<close> establish
  this, and \<open>onStateChanged\<close> and the other operations keep it.\<close>

lemma isEnabled_emit [simp]: "isEnabled (emit x c) = isEnabled c"
  and currentSong_emit [simp]: "currentSong (emit x c) = currentSong c"
  by (simp_all add: emit_def)

lemma async_segments_keep_idle:
  "isEnabled (updateTimers_resume env percent dur c) = isEnabled c
   \<and> currentSong (updateTimers_resume env percent dur c) = currentSong c"
  "isEnabled (setSongNowPlaying_resume results c) = isEnabled c
   \<and> currentSong (setSongNowPlaying_resume results c) = currentSong c"
  "isEnabled (scrobbleSong_start c) = isEnabled c
   \<and> currentSong (scrobbleSong_start c) = currentSong c"
  "isEnabled (stateOf (scrobbleSong_resume results c)) = isEnabled c
   \<and> (currentSong (stateOf (scrobbleSong_resume results c)) = None) = (currentSong c = None)"
  "isEnabled (stateOf (processSong_resume env processed percent c)) = isEnabled c
   \<and> (currentSong (stateOf (processSong_resume env processed percent c)) = None)
       = (currentSong c = None)"
  "isEnabled (replayDetected c) = isEnabled c
   \<and> currentSong (replayDetected c) = currentSong c"
  "isEnabled (constructor_resume option c) = isEnabled c
   \<and> currentSong (constructor_resume option c) = currentSong c"
  by (simp_all add: updateTimers_resume_def updateTimers_def updateTimers_start_def
      setSongNowPlaying_resume_def setSongNowPlaying_start_def
      scrobbleSong_start_def scrobbleSong_resume_def processSong_resume_def
      setSongNotRecognized_def replayDetected_def constructor_resume_def
      debugLog_def onSongUpdated_def setMode_def dispatchEvent_def withSong_def
      Let_def split: option.splits)

lemma user_operations_keep_idle:
  "isEnabled (stateOf (resetSongData env c)) = isEnabled c
   \<and> (currentSong (stateOf (resetSongData env c)) = None) = (currentSong c = None)"
  "isEnabled (stateOf (setUserSongData env data c)) = isEnabled c
   \<and> (currentSong (stateOf (setUserSongData env data c)) = None) = (currentSong c = None)"
  "isEnabled (stateOf (skipCurrentSong env c)) = isEnabled c
   \<and> (currentSong (stateOf (skipCurrentSong env c)) = None) = (currentSong c = None)"
  "currentSong (finish env c) = None"
  by (simp_all add: resetSongData_def resetSongData_start_def resetSongData_resume_def
      setUserSongData_def setUserSongData_start_def setUserSongData_resume_def
      unprocessSong_def processSong_start_def skipCurrentSong_def finish_def resetState_def
      debugLog_def onSongUpdated_def setMode_def dispatchEvent_def withSong_def
      assertSongIsPlaying_def Let_def split: option.splits)

lemma onStateChanged_keeps_isEnabled:
  "isEnabled (stateOf (onStateChanged env st c)) = isEnabled c"
  by (simp add: onStateChanged_def processNewState_def processCurrentState_def
      onPlayingStateChanged_def updateSongDuration_def updateTimers_start_def
      setSongNowPlaying_start_def skipCurrentSong_def processSong_start_def
      reset_def resetState_def
      debugLog_def onSongUpdated_def setMode_def dispatchEvent_def withSong_def
      assertSongIsPlaying_def Let_def split: option.splits)

lemma constructor_enabled_or_idle:
  "isEnabled (constructor env tab conn enabled)
   \<or> currentSong (constructor env tab conn enabled) = None"
  by (simp add: constructor_def debugLog_def)

lemma setEnabled_enabled_or_idle:
  "isEnabled (setEnabled env flag c) \<or> currentSong (setEnabled env flag c) = None"
  by (simp add: setEnabled_def setMode_def resetState_def dispatchEvent_def Let_def)

lemma onStateChanged_enabled_or_idle:
  assumes "isEnabled c \<or> currentSong c = None"
  shows "isEnabled (stateOf (onStateChanged env st c))
     \<or> currentSong (stateOf (onStateChanged env st c)) = None"
proof (cases "isEnabled c")
  case True
  then show ?thesis by (simp add: onStateChanged_keeps_isEnabled)
next
  case False
  with assms show ?thesis by (simp add: onStateChanged_def)
qed

text \<open>
  C3: a snapshot is empty iff neither (artist and track both truthy) nor a truthy
  uniqueID nor a truthy duration is there, whatever its \<open>isPlaying\<close>. On an empty snapshot
  an enabled controller with a current track resets: \<open>ControllerReset\<close> is emitted, both
  timers are reset, the current entity is cleared and the mode is set to \<open>Base\<close>; a
  controller with no current track changes no state (a warning is logged when the
  snapshot claims to be playing and the controller is enabled). A disabled controller,
  which holds no track, ignores every snapshot.
\<close>

theorem onStateChanged_empty:
  "(isStateEmpty st \<longleftrightarrow>
      \<not> (truthy (artist st) \<and> truthy (track st)) \<and> \<not> truthy (uniqueID st)
      \<and> \<not> truthy (duration st))
   \<and> isStateEmpty (st\<lparr>isPlaying := p\<rparr>) = isStateEmpty st
   \<and> (isEnabled c \<and> isStateEmpty st \<and> currentSong c \<noteq> None \<longrightarrow>
        onStateChanged env st c =
          Normal (c\<lparr>mode := Base, currentSong := None,
                    playbackTimer := Timer_reset env (playbackTimer c),
                    replayDetectionTimer := Timer_reset env (replayDetectionTimer c),
                    trace := trace c @
                      [DebugLog ''Received empty state - resetting'' Log,
                       ControllerEvt ControllerReset, ModeChanged Base] @
                      (if truthy (isPlaying st)
                       then [DebugLog ''State from connector doesn't contain enough information about the playing track'' Warn]
                       else [])\<rparr>))
   \<and> (isStateEmpty st \<and> currentSong c = None \<longrightarrow>
        onStateChanged env st c =
          Normal (c\<lparr>trace := trace c @
                      (if isEnabled c \<and> truthy (isPlaying st)
                       then [DebugLog ''State from connector doesn't contain enough information about the playing track'' Warn]
                       else [])\<rparr>))
   \<and> (\<not> isEnabled c \<longrightarrow> onStateChanged env st c = Normal c)"
  by (simp add: isStateEmpty_iff onStateChanged_def reset_def resetState_def ctrl_defs Let_def)

theorem onStateChanged_empty_witness:
  "isStateEmpty stateNone \<and> isEnabled ctrlAT \<and> currentSong ctrlAT \<noteq> None
   \<and> onStateChanged refEnv stateNone ctrlAT =
       Normal (ctrlIdle\<lparr>trace :=
         [DebugLog ''Received empty state - resetting'' Log,
          ControllerEvt ControllerReset, ModeChanged Base,
          DebugLog ''State from connector doesn't contain enough information about the playing track'' Warn]\<rparr>)
   \<and> onStateChanged refEnv (stateNone\<lparr>isPlaying := JBool False\<rparr>) ctrlIdle = Normal ctrlIdle
   \<and> onStateChanged refEnv stateNone (ctrlAT\<lparr>isEnabled := False\<rparr>) =
       Normal (ctrlAT\<lparr>isEnabled := False\<rparr>)"
  using onStateChanged_empty [where st = stateNone and c = ctrlAT and env = refEnv]
    onStateChanged_empty [where st = "stateNone\<lparr>isPlaying := JBool False\<rparr>" and c = ctrlIdle
      and env = refEnv]
    onStateChanged_empty [where st = stateNone and c = "ctrlAT\<lparr>isEnabled := False\<rparr>"
      and env = refEnv]
  by (simp add: ref_defs)

text \<open>
  C4: \<open>isSongChanged\<close> is true when no track is current; with a current track it is true
  iff for at least one of the fields artist, track, album, uniqueID the value of the
  snapshot differs (\<open>!==\<close>) from the parsed value of the current track. The identity
  fields are text or absent, so none of them is NaN: then \<open>!==\<close> is inequality of the
  values, and a snapshot that differs from the parsed values only in \<open>currentTime\<close>,
  \<open>trackArt\<close> or \<open>isPlaying\<close> gives false.
\<close>

theorem isSongChanged_iff:
  "(currentSong c = None \<longrightarrow> isSongChanged st c)
   \<and> (currentSong c = Some s \<longrightarrow>
        (isSongChanged st c \<longleftrightarrow>
          (\<exists>f\<in>set fieldsToCheckSongChange. strict_neq (getProp st f) (getProp (parsed s) f))))
   \<and> (currentSong c = Some s \<and> artist (parsed s) \<noteq> JNaN \<and> track (parsed s) \<noteq> JNaN
        \<and> album (parsed s) \<noteq> JNaN \<and> uniqueID (parsed s) \<noteq> JNaN \<longrightarrow>
        (isSongChanged st c \<longleftrightarrow>
           artist st \<noteq> artist (parsed s) \<or> track st \<noteq> track (parsed s)
           \<or> album st \<noteq> album (parsed s) \<or> uniqueID st \<noteq> uniqueID (parsed s))
        \<and> \<not> isSongChanged
              ((parsed s)\<lparr>currentTime := t, trackArt := a, isPlaying := p\<rparr>) c)"
  by (simp add: isSongChanged_def anyFieldChanged_iff fieldsToCheckSongChange_def getProp_def
      strict_neq_iff)

theorem isSongChanged_iff_witness:
  "currentSong ctrlAT = Some songAT
   \<and> isSongChanged stateAT ctrlIdle
   \<and> isSongChanged (stateAT\<lparr>album := JStr ''B''\<rparr>) ctrlAT
   \<and> \<not> isSongChanged
        (stateAT\<lparr>currentTime := JNum 10, trackArt := JStr ''art.png'', isPlaying := JBool False\<rparr>)
        ctrlAT"
  using isSongChanged_iff [where c = ctrlIdle and st = stateAT]
    isSongChanged_iff [where c = ctrlAT and st = "stateAT\<lparr>album := JStr ''B''\<rparr>" and s = songAT
      and t = "JNum 10" and a = "JStr ''art.png''" and p = "JBool False"]
  by (simp add: ref_defs fieldsToCheckSongChange_def getProp_def strict_neq_def strict_eq_def)

section \<open>Intake of a new track\<close>

text \<open>
  When the snapshot is no podcast, or podcasts are scrobbled, \<open>processNewState\<close> ends
  with the replay flag cleared and the song in the pipeline.
\<close>

lemma processNewState_clears_replay:
  assumes "shouldScrobblePodcasts c \<or> \<not> truthy (isPodcast st)"
  shows "\<exists>c'. processNewState env st c = Normal c' \<and> \<not> isReplayingSong c'
           \<and> mode c' = Loading"
  using assms
  by (auto simp add: processNewState_def processSong_start_def resetState_def ctrl_defs Let_def)

text \<open>
  On a podcast with podcast scrobbling off, \<open>processNewState\<close> returns from the branch
  that skips the song, before the assignment that clears the replay flag: the flag is
  what it was.
\<close>

lemma processNewState_podcast_skipped:
  assumes "\<not> shouldScrobblePodcasts c" and "truthy (isPodcast st)"
  shows "\<exists>c'. processNewState env st c = Normal c' \<and> isReplayingSong c' = isReplayingSong c
           \<and> mode c' = Skipped"
  using assms
  by (simp add: processNewState_def skipCurrentSong_def resetState_def ctrl_defs Let_def)

text \<open>
  C6: after \<open>processNewState\<close> the replay flag \<open>isReplayingSong\<close> is to be false for every
  snapshot, a podcast taken while podcast scrobbling is off included. The code does not
  do this: for the podcast snapshot \<open>statePodcast\<close> and the controller \<open>ctrlReplaying\<close>
  (podcast scrobbling off, replay detected) the song is skipped and the flag is still
  true afterwards.
\<close>

theorem processNewState_podcast_keeps_replay:
  "isReplayingSong ctrlReplaying \<and> \<not> shouldScrobblePodcasts ctrlReplaying
   \<and> truthy (isPodcast statePodcast)
   \<and> processNewState refEnv statePodcast ctrlReplaying =
       Normal (ctrlReplaying\<lparr>mode := Skipped,
                 currentSong := Some ((refSong_new statePodcast \<lparr>label = ''demo''\<rparr>)
                   \<lparr>flags := \<lparr>isSkipped = True, isReplaying = True, isScrobbled = False,
                              isMarkedAsPlaying = False\<rparr>\<rparr>),
                 playbackTimer := refTimer_new, replayDetectionTimer := refTimer_new,
                 trace := [ControllerEvt ControllerReset, DebugLog ''New song detected'' Log,
                           ModeChanged Skipped, SongUpdated]\<rparr>)
   \<and> isReplayingSong (stateOf (processNewState refEnv statePodcast ctrlReplaying))"
  by (simp add: processNewState_def skipCurrentSong_def resetState_def ctrl_defs ref_defs Let_def)

text \<open>
  With the flag left on, the same podcast snapshot, though unchanged, is taken in as a
  new song again: the controller is reset and the song skipped a second time.
\<close>

lemma podcast_taken_in_again:
  "\<not> isSongChanged statePodcast (stateOf (processNewState refEnv statePodcast ctrlReplaying))
   \<and> onStateChanged refEnv statePodcast
        (stateOf (processNewState refEnv statePodcast ctrlReplaying)) =
      processNewState refEnv statePodcast
        (stateOf (processNewState refEnv statePodcast ctrlReplaying))
   \<and> trace (stateOf (onStateChanged refEnv statePodcast
        (stateOf (processNewState refEnv statePodcast ctrlReplaying)))) =
      [ControllerEvt ControllerReset, DebugLog ''New song detected'' Log,
       ModeChanged Skipped, SongUpdated,
       ControllerEvt ControllerReset, DebugLog ''New song detected'' Log,
       ModeChanged Skipped, SongUpdated]"
  by (simp add: onStateChanged_def isStateEmpty_def js_and_def isSongChanged_def
      fieldsToCheckSongChange_def getProp_def strict_neq_def strict_eq_def
      processNewState_def skipCurrentSong_def resetState_def ctrl_defs ref_defs Let_def)

section \<open>Timers\<close>

text \<open>
  C7: for every duration, if the playback timer has expired then \<open>updateTimers\<close> only logs
  a warning: it returns before it reads the option, the controller is otherwise unchanged,
  and so are the playback timer and the replay detection timer, their targets included.
\<close>

theorem updateTimers_expired:
  assumes "Timer_isExpired env (playbackTimer c)"
  shows "updateTimers env percent dur c =
           c\<lparr>trace := trace c @ [DebugLog ''Attempt to update expired timers'' Warn]\<rparr>
    \<and> updateTimers_start env dur c = updateTimers env percent dur c
    \<and> playbackTimer (updateTimers env percent dur c) = playbackTimer c
    \<and> replayDetectionTimer (updateTimers env percent dur c) = replayDetectionTimer c"
  using assms by (simp add: updateTimers_def updateTimers_start_def ctrl_defs)

theorem updateTimers_expired_witness:
  "Timer_isExpired refEnv (playbackTimer ctrlExpired)
   \<and> updateTimers refEnv (JNum 50) (JNum 200) ctrlExpired =
       ctrlExpired\<lparr>trace := [DebugLog ''Attempt to update expired timers'' Warn]\<rparr>
   \<and> targetSeconds (playbackTimer (updateTimers refEnv (JNum 50) (JNum 200) ctrlExpired))
       = JNum 150
   \<and> targetSeconds (replayDetectionTimer (updateTimers refEnv (JNum 50) (JNum 200) ctrlExpired))
       = JNum 300"
proof -
  have h: "Timer_isExpired refEnv (playbackTimer ctrlExpired)" by (simp add: ref_defs)
  show ?thesis
    using h updateTimers_expired [OF h, of "JNum 50" "JNum 200"] by (simp add: ref_defs)
qed

text \<open>For comparison: the same call on a timer that has not expired sets both targets.\<close>

lemma updateTimers_running:
  "targetSeconds (playbackTimer (updateTimers refEnv (JNum 50) (JNum 200) ctrlAT)) = JNum 100
   \<and> targetSeconds (replayDetectionTimer (updateTimers refEnv (JNum 50) (JNum 200) ctrlAT))
       = JNum 200"
  by (simp add: updateTimers_def updateTimers_start_def updateTimers_resume_def
      strict_neq_def strict_eq_def ctrl_defs ref_defs Let_def)

section \<open>The answer of the pipeline\<close>

text \<open>
  C8, as amended: when the call of \<open>pipeline.process\<close> resolves to false, \<open>processSong\<close>
  returns at once, whatever the entity: the controller stays as it is, in mode \<open>Loading\<close>,
  and nothing is emitted. When the call resolves to true and \<open>isValid()\<close> of the current
  entity is false, \<open>processSong\<close> sets mode \<open>Unknown\<close>, emits \<open>SongUnrecognized\<close> and then
  notifies track-updated.
\<close>

theorem processSong_unrecognized:
  "processSong_resume env False percent c = Normal c
   \<and> (currentSong c = Some s \<and> \<not> Song_isValid env s \<longrightarrow>
        processSong_resume env True percent c =
          Normal (c\<lparr>mode := Unknown,
                    trace := trace c @
                      [DebugLog ''Song finished processing'' Log, ModeChanged Unknown,
                       ControllerEvt SongUnrecognized, SongUpdated]\<rparr>))"
  by (simp add: processSong_resume_def setSongNotRecognized_def ctrl_defs Let_def)

theorem processSong_unrecognized_witness:
  "currentSong (processSong_start ctrlNoArtist) = Some songNoArtist
   \<and> \<not> Song_isValid refEnv songNoArtist
   \<and> processSong_resume refEnv True (JNum 50) (processSong_start ctrlNoArtist) =
       Normal (ctrlNoArtist\<lparr>mode := Unknown,
                 trace := [ModeChanged Loading, Call (Pipeline_process (Some songNoArtist)),
                           DebugLog ''Song finished processing'' Log, ModeChanged Unknown,
                           ControllerEvt SongUnrecognized, SongUpdated]\<rparr>)"
  using processSong_unrecognized [where env = refEnv and percent = "JNum 50"
      and c = "processSong_start ctrlNoArtist" and s = songNoArtist]
  by (simp add: processSong_start_def ctrl_defs ref_defs)

text \<open>
  The claim as first stated, that a call resolving to false leads to mode \<open>Unknown\<close> and
  the event \<open>SongUnrecognized\<close>, fails: for an entity that is not valid and a call that
  resolves to false, the mode stays \<open>Loading\<close> and the event is not emitted.
\<close>

theorem processSong_false_counterexample:
  "\<not> Song_isValid refEnv songNoArtist
   \<and> currentSong ctrlNoArtist = Some songNoArtist
   \<and> processSong_resume refEnv False (JNum 50) (processSong_start ctrlNoArtist) =
       Normal (ctrlNoArtist\<lparr>mode := Loading,
                 trace := [ModeChanged Loading, Call (Pipeline_process (Some songNoArtist))]\<rparr>)
   \<and> mode (stateOf (processSong_resume refEnv False (JNum 50) (processSong_start ctrlNoArtist)))
       \<noteq> Unknown
   \<and> ControllerEvt SongUnrecognized \<notin>
       set (trace (stateOf
         (processSong_resume refEnv False (JNum 50) (processSong_start ctrlNoArtist))))"
  by (simp add: processSong_resume_def processSong_start_def ctrl_defs ref_defs)

section \<open>User operations\<close>

text \<open>
  C9, as amended: \<open>setUserSongData\<close> fails with a precondition error when no track is
  current and when the current track's \<open>isScrobbled\<close> flag is true. It is an \<open>async\<close>
  function, so it does not fail synchronously: the call returns to its caller, with a
  promise that is already rejected with the error, the check having run before anything
  is awaited. In these cases the controller is left unchanged and the edit store is not
  called. It succeeds only when a track that is not scrobbled is current: the call
  returns a pending promise with the edit handed to the edit store, and then the song is
  unprocessed and given to the pipeline again, which fulfils the promise.
\<close>

theorem setUserSongData_precondition:
  "(currentSong c = None \<longrightarrow>
      setUserSongData_call data c = Normal (c, Rejected (Error ''No song is now playing''))
      \<and> setUserSongData_start data c = Throw (Error ''No song is now playing'') c
      \<and> setUserSongData env data c = Throw (Error ''No song is now playing'') c
      \<and> settled (setUserSongData env data c) = Rejected (Error ''No song is now playing''))
   \<and> (currentSong c = Some s \<and> isScrobbled (flags s) \<longrightarrow>
      setUserSongData_call data c =
        Normal (c, Rejected (Error ''Unable to set user data for scrobbled song''))
      \<and> setUserSongData_start data c =
        Throw (Error ''Unable to set user data for scrobbled song'') c
      \<and> setUserSongData env data c =
        Throw (Error ''Unable to set user data for scrobbled song'') c
      \<and> settled (setUserSongData env data c) =
        Rejected (Error ''Unable to set user data for scrobbled song''))
   \<and> (currentSong c = Some s \<and> \<not> isScrobbled (flags s) \<longrightarrow>
      setUserSongData_call data c =
        Normal (c\<lparr>trace := trace c @ [Call (SavedEdits_saveSongInfo s data)]\<rparr>, Pending)
      \<and> setUserSongData_start data c =
        Normal (c\<lparr>trace := trace c @ [Call (SavedEdits_saveSongInfo s data)]\<rparr>)
      \<and> setUserSongData env data c =
        Normal (c\<lparr>currentSong := Some (Song_resetData env s),
                  playbackTimer := Timer_update env JNull (playbackTimer c),
                  replayDetectionTimer := Timer_update env JNull (replayDetectionTimer c),
                  mode := Loading,
                  trace := trace c @
                    [Call (SavedEdits_saveSongInfo s data),
                     DebugLog ''Song unprocessed'' Log,
                     DebugLog ''Clearing playback timer destination time'' Log,
                     ModeChanged Loading,
                     Call (Pipeline_process (Some (Song_resetData env s)))]\<rparr>)
      \<and> settled (setUserSongData env data c) = Fulfilled)
   \<and> \<not> throwsSync (setUserSongData_call data c)"
  by (simp add: setUserSongData_call_def setUserSongData_def setUserSongData_start_def
      setUserSongData_resume_def unprocessSong_def processSong_start_def ctrl_defs Let_def
      split: option.splits)

theorem setUserSongData_precondition_witness:
  "currentSong ctrlIdle = None
   \<and> setUserSongData_call [(''artist'', JStr ''B'')] ctrlIdle =
       Normal (ctrlIdle, Rejected (Error ''No song is now playing''))
   \<and> setUserSongData refEnv [(''artist'', JStr ''B'')] ctrlIdle =
       Throw (Error ''No song is now playing'') ctrlIdle
   \<and> isScrobbled (flags songScrobbled)
   \<and> setUserSongData_call [(''artist'', JStr ''B'')] ctrlScrobbled =
       Normal (ctrlScrobbled, Rejected (Error ''Unable to set user data for scrobbled song''))
   \<and> setUserSongData refEnv [(''artist'', JStr ''B'')] ctrlScrobbled =
       Throw (Error ''Unable to set user data for scrobbled song'') ctrlScrobbled
   \<and> \<not> isScrobbled (flags songAT)
   \<and> setUserSongData_call [(''artist'', JStr ''B'')] ctrlAT =
       Normal (ctrlAT\<lparr>trace :=
                  [Call (SavedEdits_saveSongInfo songAT [(''artist'', JStr ''B'')])]\<rparr>,
               Pending)
   \<and> setUserSongData refEnv [(''artist'', JStr ''B'')] ctrlAT =
       Normal (ctrlAT\<lparr>mode := Loading,
                 playbackTimer := (playbackTimer ctrlAT)\<lparr>targetSeconds := JNull\<rparr>,
                 replayDetectionTimer := (replayDetectionTimer ctrlAT)\<lparr>targetSeconds := JNull\<rparr>,
                 trace := [Call (SavedEdits_saveSongInfo songAT [(''artist'', JStr ''B'')]),
                           DebugLog ''Song unprocessed'' Log,
                           DebugLog ''Clearing playback timer destination time'' Log,
                           ModeChanged Loading, Call (Pipeline_process (Some songAT))]\<rparr>)
   \<and> settled (setUserSongData refEnv [(''artist'', JStr ''B'')] ctrlAT) = Fulfilled"
  using setUserSongData_precondition [where c = ctrlIdle and data = "[(''artist'', JStr ''B'')]"
      and env = refEnv]
    setUserSongData_precondition [where c = ctrlScrobbled and s = songScrobbled
      and data = "[(''artist'', JStr ''B'')]" and env = refEnv]
    setUserSongData_precondition [where c = ctrlAT and s = songAT
      and data = "[(''artist'', JStr ''B'')]" and env = refEnv]
  by (simp add: ref_defs)

text \<open>
  The claim as first stated, that the failure is synchronous, fails: with no current
  track, and with a scrobbled one, the call of \<open>setUserSongData\<close> returns to its caller
  and the error is in the rejected promise. \<open>skipCurrentSong\<close>, which is not \<open>async\<close>,
  makes the same check and does throw to its caller.
\<close>

theorem setUserSongData_sync_counterexample:
  "currentSong ctrlIdle = None
   \<and> setUserSongData_call [(''artist'', JStr ''B'')] ctrlIdle =
       Normal (ctrlIdle, Rejected (Error ''No song is now playing''))
   \<and> \<not> throwsSync (setUserSongData_call [(''artist'', JStr ''B'')] ctrlIdle)
   \<and> currentSong ctrlScrobbled = Some songScrobbled \<and> isScrobbled (flags songScrobbled)
   \<and> setUserSongData_call [(''artist'', JStr ''B'')] ctrlScrobbled =
       Normal (ctrlScrobbled, Rejected (Error ''Unable to set user data for scrobbled song''))
   \<and> \<not> throwsSync (setUserSongData_call [(''artist'', JStr ''B'')] ctrlScrobbled)
   \<and> skipCurrentSong refEnv ctrlIdle = Throw (Error ''No song is now playing'') ctrlIdle
   \<and> throwsSync (skipCurrentSong refEnv ctrlIdle)"
  by (simp add: setUserSongData_call_def setUserSongData_start_def skipCurrentSong_def
      ctrl_defs ref_defs)

text \<open>
  C10: \<open>resetSongData\<close> checks only that a track is current: for every current track,
  whatever its \<open>isScrobbled\<close> flag, it succeeds; it resets the info of the track, removes
  its saved edits, unprocesses the song and gives it to the pipeline again. It fails with
  a precondition error only when no track is current.
\<close>

theorem resetSongData_checks_only_current:
  "(currentSong c = None \<longrightarrow>
      resetSongData env c = Throw (Error ''No song is now playing'') c)
   \<and> (currentSong c = Some s \<longrightarrow>
      resetSongData env c =
        Normal (c\<lparr>currentSong := Some (Song_resetData env (Song_resetInfo env s)),
                  playbackTimer := Timer_update env JNull (playbackTimer c),
                  replayDetectionTimer := Timer_update env JNull (replayDetectionTimer c),
                  mode := Loading,
                  trace := trace c @
                    [Call (SavedEdits_removeSongInfo (Song_resetInfo env s)),
                     DebugLog ''Song unprocessed'' Log,
                     DebugLog ''Clearing playback timer destination time'' Log,
                     ModeChanged Loading,
                     Call (Pipeline_process
                             (Some (Song_resetData env (Song_resetInfo env s))))]\<rparr>))"
  by (simp add: resetSongData_def resetSongData_start_def resetSongData_resume_def
      unprocessSong_def processSong_start_def ctrl_defs Let_def)

theorem resetSongData_checks_only_current_witness:
  "currentSong ctrlScrobbled = Some songScrobbled \<and> isScrobbled (flags songScrobbled)
   \<and> resetSongData refEnv ctrlScrobbled =
       Normal (ctrlScrobbled\<lparr>mode := Loading,
                 playbackTimer := (playbackTimer ctrlAT)\<lparr>targetSeconds := JNull\<rparr>,
                 replayDetectionTimer := (replayDetectionTimer ctrlAT)\<lparr>targetSeconds := JNull\<rparr>,
                 trace := [Call (SavedEdits_removeSongInfo songScrobbled),
                           DebugLog ''Song unprocessed'' Log,
                           DebugLog ''Clearing playback timer destination time'' Log,
                           ModeChanged Loading, Call (Pipeline_process (Some songScrobbled))]\<rparr>)
   \<and> resetSongData refEnv ctrlIdle = Throw (Error ''No song is now playing'') ctrlIdle"
  using resetSongData_checks_only_current [where c = ctrlScrobbled and env = refEnv
      and s = songScrobbled]
    resetSongData_checks_only_current [where c = ctrlIdle and env = refEnv]
  by (simp add: ref_defs)

end
